theory Spec2Isabelle
  imports Complex_Main "HOL-Library.Word" "HOL-Library.Multiset"
begin

unbundle bit_operations_syntax

section \<open>Strings and numbers of the host language\<close>

text \<open>
  A JavaScript string is a sequence of UTF-16 code units. It is modelled as a
  \<^typ>\<open>string\<close>, one \<^typ>\<open>char\<close> per code unit, which covers the strings whose
  code units are below 256 (ASCII and Latin-1). \<open>charCodeAt\<close> is then \<^const>\<open>of_char\<close>.
  Numbers that the program uses as counts, identifiers and millisecond timestamps are \<^typ>\<open>int\<close>.
\<close>

definition digit36 :: "nat \<Rightarrow> char" where
  "digit36 d = ''0123456789abcdefghijklmnopqrstuvwxyz'' ! d"

text \<open>
  The digits of a non-negative integer in radix \<open>b\<close>, most significant first.
  JavaScript raises a RangeError for a radix outside 2..36; the program only uses 10 and 36.
\<close>

function toRadix :: "nat \<Rightarrow> nat \<Rightarrow> string" where
  "toRadix b n = (if b < 2 \<or> n < b then [digit36 n] else toRadix b (n div b) @ [digit36 (n mod b)])"
  by pat_completeness auto
termination
  by (relation "measure snd") auto

declare toRadix.simps [simp del]

text \<open>\<open>Number.prototype.toString(radix)\<close> on an integer: a minus sign, then the digits.\<close>

definition toStringRadix :: "nat \<Rightarrow> int \<Rightarrow> string" where
  "toStringRadix b i = (if i < 0 then CHR ''-'' # toRadix b (nat (- i)) else toRadix b (nat i))"

text \<open>
  \<open>String.prototype.trim\<close>: white space and line terminators are removed at both ends.
  Below code unit 256 these are tab, line feed, vertical tab, form feed, carriage return,
  space and the no-break space.
\<close>

definition isWhiteSpace :: "char \<Rightarrow> bool" where
  "isWhiteSpace c = (of_char c \<in> {9, 10, 11, 12, 13, 32, 160 :: nat})"

definition trim :: "string \<Rightarrow> string" where
  "trim s = rev (dropWhile isWhiteSpace (rev (dropWhile isWhiteSpace s)))"

section \<open>The summarizer: cache, provider dispatch and request handler\<close>

subsection \<open>Cache\<close>

record cache_entry =
  summary :: string
  timestamp :: int

type_synonym cache = "string \<rightharpoonup> cache_entry"

definition CACHE_DURATION :: int where
  "CACHE_DURATION = 5 * 60 * 1000"

text \<open>
  \<open>hashText\<close>: \<open>hash << 5\<close> and \<open>hash & hash\<close> convert to a signed 32-bit integer, and
  the subtraction and addition in between are exact, so every round computes
  \<open>31 * hash + char\<close> modulo \<open>2 ^ 32\<close>: arithmetic on \<^typ>\<open>32 word\<close>, read back
  as a signed value and printed in radix 36.
\<close>

definition hashText :: "string \<Rightarrow> string" where
  "hashText text =
     toStringRadix 36
       (sint (foldl (\<lambda>hash c. push_bit 5 hash - hash + of_nat (of_char c)) (0 :: 32 word) text))"

text \<open>
  \<open>cleanExpiredCache\<close>, with the reading of the clock as a parameter: every entry
  with \<open>now - timestamp > CACHE_DURATION\<close> is deleted, the others stay.
\<close>

definition cleanExpiredCache :: "int \<Rightarrow> cache \<Rightarrow> cache" where
  "cleanExpiredCache now c =
     (\<lambda>key. case c key of
               None \<Rightarrow> None
             | Some v \<Rightarrow> if now - timestamp v > CACHE_DURATION then None else Some v)"

subsection \<open>Upstream providers\<close>

text \<open>
  The request that \<open>summarizeWithLLM\<close> hands to \<open>fetch\<close>: the URL, the headers and
  the fields of the JSON body. \<open>messages\<close> are pairs of a role and a content.
\<close>

record llm_request =
  req_url :: string
  http_method :: string
  headers :: "(string \<times> string) list"
  model :: string
  messages :: "(string \<times> string) list"
  max_tokens :: nat
  temperature :: "rat option"

text \<open>
  What the provider answers is outside the program. The model keeps the cases the code
  tells apart:
  \<^item> \<open>Threw m\<close>: \<open>fetch\<close>, \<open>response.json()\<close> or a field access raised an Error with message \<open>m\<close>;
  \<^item> \<open>NotOk Unparsable\<close>: \<open>response.ok\<close> is false and the error body is not JSON;
  \<^item> \<open>NotOk (ErrorJson m)\<close>: \<open>response.ok\<close> is false and \<open>m\<close> is \<open>error.error?.message\<close>
    (\<open>None\<close> when undefined);
  \<^item> \<open>Ok c\<close>: \<open>response.ok\<close> is true and \<open>c\<close> is the content field
    (\<open>data.choices[0]?.message?.content\<close>, for Anthropic \<open>data.content[0]?.text\<close>),
    \<open>None\<close> when undefined.
\<close>

datatype error_body = Unparsable | ErrorJson "string option"

datatype upstream_reply = Threw string | NotOk error_body | Ok "string option"

text \<open>
  The three provider branches read the reply in the same way and differ in the fallback
  message only. \<open>Inl\<close> is the message of the Error thrown, \<open>Inr\<close> the summary returned.
\<close>

definition read_reply :: "string \<Rightarrow> upstream_reply \<Rightarrow> string + string" where
  "read_reply fallback r =
     (case r of
        Threw m \<Rightarrow> Inl m
      | NotOk Unparsable \<Rightarrow> Inl ''Unknown error''
      | NotOk (ErrorJson m) \<Rightarrow>
          Inl (case m of None \<Rightarrow> fallback | Some s \<Rightarrow> if s = [] then fallback else s)
      | Ok c \<Rightarrow>
          Inr (case c of
                 None \<Rightarrow> ''Summary not available''
               | Some s \<Rightarrow> if trim s = [] then ''Summary not available'' else trim s))"

definition openai_request :: "string \<Rightarrow> string \<Rightarrow> llm_request" where
  "openai_request apiKey prompt =
     \<lparr>req_url = ''https://api.openai.com/v1/chat/completions'',
      http_method = ''POST'',
      headers = [(''Content-Type'', ''application/json''),
                 (''Authorization'', ''Bearer '' @ apiKey)],
      model = ''gpt-3.5-turbo'',
      messages = [(''user'', prompt)],
      max_tokens = 150,
      temperature = Some (7 / 10)\<rparr>"

definition anthropic_request :: "string \<Rightarrow> string \<Rightarrow> llm_request" where
  "anthropic_request apiKey prompt =
     \<lparr>req_url = ''https://api.anthropic.com/v1/messages'',
      http_method = ''POST'',
      headers = [(''Content-Type'', ''application/json''),
                 (''x-api-key'', apiKey),
                 (''anthropic-version'', ''2023-06-01'')],
      model = ''claude-3-5-sonnet-20241022'',
      messages = [(''user'', prompt)],
      max_tokens = 150,
      temperature = None\<rparr>"

definition groq_request :: "string \<Rightarrow> string \<Rightarrow> llm_request" where
  "groq_request apiKey prompt =
     \<lparr>req_url = ''https://api.groq.com/openai/v1/chat/completions'',
      http_method = ''POST'',
      headers = [(''Content-Type'', ''application/json''),
                 (''Authorization'', ''Bearer '' @ apiKey)],
      model = ''llama-3.3-70b-versatile'',
      messages = [(''user'', prompt)],
      max_tokens = 150,
      temperature = Some (7 / 10)\<rparr>"

text \<open>
  \<open>summarizeWithLLM\<close>. The first component is the outcome (\<open>Inl\<close>: the Error that
  leaves the function, the inner \<open>catch\<close> logs and rethrows it), the second the list of
  the network calls made, in order. \<open>fetch\<close> is the outside world.
\<close>

definition summarizeWithLLM ::
  "(llm_request \<Rightarrow> upstream_reply) \<Rightarrow> string \<Rightarrow> string \<Rightarrow> string
     \<Rightarrow> (string + string) \<times> llm_request list" where
  "summarizeWithLLM fetch text apiKey provider =
     (let prompt = ''Summarize the following text in up to 3 lines. Be concise and informative:''
                     @ [CHR 0x0A, CHR 0x0A] @ text
      in if provider = ''openai'' then
           (read_reply ''OpenAI API error'' (fetch (openai_request apiKey prompt)),
            [openai_request apiKey prompt])
         else if provider = ''anthropic'' then
           (read_reply ''Anthropic API error'' (fetch (anthropic_request apiKey prompt)),
            [anthropic_request apiKey prompt])
         else if provider = ''groq'' then
           (read_reply ''Groq API error'' (fetch (groq_request apiKey prompt)),
            [groq_request apiKey prompt])
         else (Inl (''Unsupported provider: '' @ provider), []))"

subsection \<open>The request handler\<close>

text \<open>
  The body of a request. \<open>text\<close> is absent, a value that is not a string, or a string
  (the handler tests \<open>typeof text\<close>); \<open>apiKey\<close> and \<open>provider\<close> are absent or strings,
  as the handler's documentation has them. \<open>Malformed m\<close> is a request whose body
  \<open>request.json()\<close> or the destructuring rejects with an Error of message \<open>m\<close>.
\<close>

datatype text_field = Absent | NonString | Str string

record body =
  req_text :: text_field
  apiKey :: "string option"
  provider :: "string option"

datatype request = Malformed string | Json body

text \<open>
  A response is the success object \<open>{summary, cached}\<close> (status 200) or
  \<open>{error}\<close> with an explicit status.
\<close>

datatype response = Summary string bool | Failure nat string

fun status :: "response \<Rightarrow> nat" where
  "status (Summary s c) = 200"
| "status (Failure st e) = st"

text \<open>
  The handler reads \<open>Date.now()\<close> up to three times: in the sweep, when it computes the age
  of the entry it found, and when it stores a new entry.
\<close>

record clock =
  t_sweep :: int
  t_lookup :: int
  t_store :: int

text \<open>
  The handler after the cache check (the credential test, the upstream call, the store).
  The result is the response, the cache left behind and the network calls made.
\<close>

definition POST_miss ::
  "clock \<Rightarrow> (llm_request \<Rightarrow> upstream_reply) \<Rightarrow> cache \<Rightarrow> string \<Rightarrow> string \<Rightarrow> body
     \<Rightarrow> response \<times> cache \<times> llm_request list" where
  "POST_miss clk fetch c cacheKey t b =
     (case apiKey b of
        None \<Rightarrow> (Failure 400 ''API key is required. Please set it in Settings.'', c, [])
      | Some k \<Rightarrow>
          if k = [] then (Failure 400 ''API key is required. Please set it in Settings.'', c, [])
          else
            (case summarizeWithLLM fetch t k (case provider b of None \<Rightarrow> ''openai'' | Some p \<Rightarrow> p) of
               (Inl m, calls) \<Rightarrow> (Failure 500 m, c, calls)
             | (Inr s, calls) \<Rightarrow>
                 (Summary s False,
                  c(cacheKey \<mapsto> \<lparr>summary = s, timestamp = t_store clk\<rparr>),
                  calls)))"

definition POST ::
  "clock \<Rightarrow> (llm_request \<Rightarrow> upstream_reply) \<Rightarrow> cache \<Rightarrow> request
     \<Rightarrow> response \<times> cache \<times> llm_request list" where
  "POST clk fetch c req =
     (case req of
        Malformed m \<Rightarrow> (Failure 500 m, c, [])
      | Json b \<Rightarrow>
          (case req_text b of
             Absent \<Rightarrow> (Failure 400 ''Text is required'', c, [])
           | NonString \<Rightarrow> (Failure 400 ''Text is required'', c, [])
           | Str t \<Rightarrow>
               if t = [] then (Failure 400 ''Text is required'', c, [])
               else
                 (let c1 = cleanExpiredCache (t_sweep clk) c;
                      cacheKey = hashText t
                  in case c1 cacheKey of
                       None \<Rightarrow> POST_miss clk fetch c1 cacheKey t b
                     | Some cached \<Rightarrow>
                         if t_lookup clk - timestamp cached < CACHE_DURATION
                         then (Summary (summary cached) True, c1, [])
                         else POST_miss clk fetch c1 cacheKey t b)))"

section \<open>Project records and the ranking shared by the fetchers\<close>

text \<open>
  The \<open>Project\<close> interface of the two routes and of the page. \<open>source\<close> is optional
  in two of the three declarations.
\<close>

record project =
  project_id :: string
  name :: string
  description :: string
  url :: string
  stars :: int
  language :: string
  topics :: "string list"
  source :: "string option"

text \<open>
  \<open>.sort((a, b) => b.stars - a.stars)\<close>. The comparator is consistent on integers and
  \<open>Array.prototype.sort\<close> is stable, so the result is the stable sort by decreasing
  stars, which is what \<^const>\<open>sort_key\<close> computes on the negated key.
\<close>

definition sortByStars :: "project list \<Rightarrow> project list" where
  "sortByStars ps = sort_key (\<lambda>p. - stars p) ps"

record fetch_result =
  projects :: "project list"
  count :: nat

section \<open>The GitHub fetcher\<close>

record GitHubRepo =
  repo_id :: int
  repo_name :: string
  full_name :: string
  repo_description :: "string option"
  html_url :: string
  stargazers_count :: int
  repo_language :: "string option"
  repo_topics :: "string list option"
  created_at :: string
  pushed_at :: string

definition queries :: "string \<Rightarrow> string list" where
  "queries dateStr =
     [''topic:AI pushed:>'' @ dateStr @ '' stars:>10'',
      ''topic:machine-learning pushed:>'' @ dateStr @ '' stars:>10'',
      ''topic:artificial-intelligence pushed:>'' @ dateStr @ '' stars:>10'',
      ''topic:deep-learning pushed:>'' @ dateStr @ '' stars:>10'',
      ''topic:llm pushed:>'' @ dateStr @ '' stars:>10'',
      ''topic:nlp pushed:>'' @ dateStr @ '' stars:>10'']"

text \<open>
  What one search query gives: \<open>SearchFailed\<close> when \<open>fetch\<close> or \<open>response.json()\<close>
  raises or \<open>response.ok\<close> is false (the loop logs and continues), else \<open>SearchOk items\<close>
  with \<open>items\<close> the field \<open>data.items\<close>, \<open>None\<close> when it is missing.
\<close>

datatype search_outcome = SearchFailed | SearchOk "GitHubRepo list option"

text \<open>
  \<open>allRepos\<close> is a \<open>Map\<close>, which iterates in insertion order: an association list
  with new keys added at the end.
\<close>

type_synonym repo_map = "(string \<times> GitHubRepo) list"

definition addRepo :: "repo_map \<Rightarrow> GitHubRepo \<Rightarrow> repo_map" where
  "addRepo allRepos repo =
     (if map_of allRepos (full_name repo) = None
      then allRepos @ [(full_name repo, repo)]
      else allRepos)"

definition itemsOf :: "search_outcome \<Rightarrow> GitHubRepo list" where
  "itemsOf out = (case out of SearchFailed \<Rightarrow> [] | SearchOk None \<Rightarrow> [] | SearchOk (Some repos) \<Rightarrow> repos)"

definition mergeQueries :: "search_outcome list \<Rightarrow> repo_map" where
  "mergeQueries outs = foldl (\<lambda>allRepos out. foldl addRepo allRepos (itemsOf out)) [] outs"

text \<open>
  \<open>toLowerCase\<close> on code units below 256: the letters A to Z and the upper-case letters
  of Latin-1 (192 to 222 without the multiplication sign 215) move up by 32.
\<close>

definition toLowerChar :: "char \<Rightarrow> char" where
  "toLowerChar c =
     (let n = (of_char c :: nat)
      in if (65 \<le> n \<and> n \<le> 90) \<or> (192 \<le> n \<and> n \<le> 222 \<and> n \<noteq> 215)
         then char_of (n + 32) else c)"

definition toLowerCase :: "string \<Rightarrow> string" where
  "toLowerCase s = map toLowerChar s"

fun join :: "string \<Rightarrow> string list \<Rightarrow> string" where
  "join sep [] = []"
| "join sep [x] = x"
| "join sep (x # y # ys) = x @ sep @ join sep (y # ys)"

fun startsWith :: "string \<Rightarrow> string \<Rightarrow> bool" where
  "startsWith s [] = True"
| "startsWith [] (c # sub) = False"
| "startsWith (a # s) (c # sub) = (a = c \<and> startsWith s sub)"

text \<open>\<open>String.prototype.includes\<close>: the second string occurs in the first.\<close>

fun str_includes :: "string \<Rightarrow> string \<Rightarrow> bool" where
  "str_includes [] sub = (sub = [])"
| "str_includes (a # s) sub = (startsWith (a # s) sub \<or> str_includes s sub)"

definition topicLower :: "GitHubRepo \<Rightarrow> string" where
  "topicLower repo =
     join '' '' (map toLowerCase (case repo_topics repo of None \<Rightarrow> [] | Some ts \<Rightarrow> ts))"

text \<open>The callback of \<open>.filter\<close>.\<close>

definition topicFilter :: "GitHubRepo \<Rightarrow> bool" where
  "topicFilter repo =
     (str_includes (topicLower repo) ''ai'' \<or>
      str_includes (topicLower repo) ''machine-learning'' \<or>
      str_includes (topicLower repo) ''artificial-intelligence'' \<or>
      str_includes (topicLower repo) ''ml'' \<or>
      str_includes (topicLower repo) ''deep-learning'' \<or>
      str_includes (topicLower repo) ''neural-network'' \<or>
      str_includes (topicLower repo) ''llm'' \<or>
      str_includes (topicLower repo) ''nlp'')"

text \<open>
  The callback of \<open>.map\<close>; \<open>x || fallback\<close> takes the fallback for a missing or
  empty string. \<open>repo.id.toString()\<close> prints all decimal digits of an identifier below
  \<open>10 ^ 21\<close> in absolute value, which the identifiers of repositories are; beyond that
  JavaScript prints an exponent, which \<open>toStringRadix\<close> does not model.
\<close>

definition toProject :: "GitHubRepo \<Rightarrow> project" where
  "toProject repo =
     \<lparr>project_id = toStringRadix 10 (repo_id repo),
      name = full_name repo,
      description = (case repo_description repo of
                       None \<Rightarrow> ''No description available''
                     | Some d \<Rightarrow> if d = [] then ''No description available'' else d),
      url = html_url repo,
      stars = stargazers_count repo,
      language = (case repo_language repo of
                    None \<Rightarrow> ''Unknown''
                  | Some l \<Rightarrow> if l = [] then ''Unknown'' else l),
      topics = (case repo_topics repo of None \<Rightarrow> [] | Some ts \<Rightarrow> ts),
      source = Some ''github''\<rparr>"

definition filterAndMap :: "GitHubRepo list \<Rightarrow> project list" where
  "filterAndMap repos = map toProject (filter topicFilter repos)"

text \<open>
  The route handler. \<open>dateStr\<close> is yesterday's date and \<open>search\<close> the outside world,
  asked once per query, in the order of \<open>queries\<close>. On records of the declared types
  nothing in the handler raises, so its outer \<open>catch\<close> (status 500) is not a branch here.
\<close>

definition GET_github :: "string \<Rightarrow> (string \<Rightarrow> search_outcome) \<Rightarrow> fetch_result" where
  "GET_github dateStr search =
     (let allRepos = mergeQueries (map search (queries dateStr));
          ps = take 50 (sortByStars (filterAndMap (map snd allRepos)))
      in \<lparr>projects = ps, count = length ps\<rparr>)"

section \<open>The Hugging Face fetcher\<close>

record card =
  short_description :: "string option"
  card_description :: "string option"
  card_sdk :: "string option"

record space =
  space_id :: "string option"
  space_name :: "string option"
  space_description :: "string option"
  space_card :: "card option"
  title :: "string option"
  likes :: "int option"
  likeCount :: "int option"
  like_count :: "int option"
  sdk :: "string option"

text \<open>
  \<open>a || b || ... || d\<close>: the first operand that is present and truthy, else the last
  one. A string is truthy when it is not empty, a number when it is not 0.
\<close>

fun firstTruthy :: "('a \<Rightarrow> bool) \<Rightarrow> 'a option list \<Rightarrow> 'a \<Rightarrow> 'a" where
  "firstTruthy truthy [] d = d"
| "firstTruthy truthy (None # xs) d = firstTruthy truthy xs d"
| "firstTruthy truthy (Some x # xs) d = (if truthy x then x else firstTruthy truthy xs d)"

definition nonEmpty :: "string \<Rightarrow> bool" where
  "nonEmpty s = (s \<noteq> [])"

definition nonZero :: "int \<Rightarrow> bool" where
  "nonZero n = (n \<noteq> 0)"

text \<open>\<open>space.card?.f\<close>\<close>

definition cardField :: "(card \<Rightarrow> string option) \<Rightarrow> space \<Rightarrow> string option" where
  "cardField f sp = (case space_card sp of None \<Rightarrow> None | Some c \<Rightarrow> f c)"

definition spaceDescription :: "space \<Rightarrow> string" where
  "spaceDescription sp =
     firstTruthy nonEmpty
       [space_description sp, cardField short_description sp, cardField card_description sp,
        title sp, space_id sp] []"

definition spaceId :: "space \<Rightarrow> string" where
  "spaceId sp = firstTruthy nonEmpty [space_id sp, space_name sp] []"

definition spaceLikes :: "space \<Rightarrow> int" where
  "spaceLikes sp = firstTruthy nonZero [likes sp, likeCount sp, like_count sp] 0"

definition spaceProject :: "space \<Rightarrow> project" where
  "spaceProject sp =
     \<lparr>project_id = ''hf_space_'' @ map (\<lambda>c. if c = CHR ''/'' then CHR ''_'' else c) (spaceId sp),
      name = spaceId sp,
      description =
        (if spaceDescription sp \<noteq> [] then spaceDescription sp
         else ''Interactive AI demo by '' @
              (if takeWhile (\<lambda>c. c \<noteq> CHR ''/'') (spaceId sp) \<noteq> []
               then takeWhile (\<lambda>c. c \<noteq> CHR ''/'') (spaceId sp) else ''Hugging Face'')),
      url = ''https://huggingface.co/spaces/'' @ spaceId sp,
      stars = spaceLikes sp,
      language = firstTruthy nonEmpty [sdk sp, cardField card_sdk sp] ''Gradio'',
      topics = [''space'', ''demo'', ''ai''],
      source = Some ''huggingface_spaces''\<rparr>"

text \<open>The body of \<open>spaces.forEach\<close>: one \<open>push\<close> when the test holds.\<close>

definition pushSpace :: "project list \<Rightarrow> space \<Rightarrow> project list" where
  "pushSpace allProjects sp =
     (if spaceLikes sp > 0 \<and> spaceId sp \<noteq> [] then allProjects @ [spaceProject sp] else allProjects)"

text \<open>
  \<open>HubFailed\<close>: the request timed out, \<open>fetch\<close> or \<open>response.json()\<close> raised, or
  \<open>response.ok\<close> is false; the handler logs it and goes on with no projects.
\<close>

datatype hub_outcome = HubFailed | HubOk "space list"

definition GET_huggingface :: "hub_outcome \<Rightarrow> fetch_result" where
  "GET_huggingface out =
     (let allProjects = (case out of HubFailed \<Rightarrow> [] | HubOk spaces \<Rightarrow> foldl pushSpace [] spaces);
          sorted_projects = sortByStars allProjects
      in \<lparr>projects = sorted_projects, count = length sorted_projects\<rparr>)"

section \<open>The aggregator of the page\<close>

text \<open>
  What \<open>fetch\<close> of one route gives the page: \<open>Rejected m\<close> when the promise rejects
  with an Error of message \<open>m\<close>; else a response with its \<open>ok\<close> flag and its body, which
  \<open>.json()\<close> cannot read (\<open>BadJson m\<close>) or reads as an object whose field \<open>projects\<close>
  may be missing.
\<close>

datatype json_body = BadJson string | Data "project list option"

datatype fetch_outcome = Rejected string | Response bool json_body

text \<open>When both promises reject, \<open>Promise.all\<close> rejects with the one that rejected first.\<close>

datatype race = GithubFirst | HuggingfaceFirst

record page_state =
  shown :: "project list"
  loading :: bool
  error :: "string option"

text \<open>
  \<open>await Promise.all\<close> and the lines up to \<open>.sort\<close>: \<open>Inl\<close> is the message of the
  Error that reaches \<open>catch\<close>, \<open>Inr\<close> the list given to \<open>setProjects\<close>.
\<close>

definition readProjects :: "bool \<Rightarrow> json_body \<Rightarrow> string + project list" where
  "readProjects ok b =
     (if ok then (case b of BadJson m \<Rightarrow> Inl m | Data None \<Rightarrow> Inr [] | Data (Some ps) \<Rightarrow> Inr ps)
      else Inr [])"

definition combine :: "race \<Rightarrow> fetch_outcome \<Rightarrow> fetch_outcome \<Rightarrow> string + project list" where
  "combine r github huggingface =
     (case (github, huggingface) of
        (Rejected m, Rejected m') \<Rightarrow> (case r of GithubFirst \<Rightarrow> Inl m | HuggingfaceFirst \<Rightarrow> Inl m')
      | (Rejected m, Response ok b) \<Rightarrow> Inl m
      | (Response ok b, Rejected m') \<Rightarrow> Inl m'
      | (Response ok b, Response ok' b') \<Rightarrow>
          if \<not> ok \<and> \<not> ok' then Inl ''Failed to fetch projects''
          else (case readProjects ok b of
                  Inl m \<Rightarrow> Inl m
                | Inr gs \<Rightarrow>
                    (case readProjects ok' b' of
                       Inl m' \<Rightarrow> Inl m'
                     | Inr hs \<Rightarrow> Inr (sortByStars (gs @ hs)))))"

text \<open>
  \<open>fetchProjects\<close>, from the state of the page before the click to the state after the
  \<open>finally\<close> block.
\<close>

definition fetchProjects :: "page_state \<Rightarrow> race \<Rightarrow> fetch_outcome \<Rightarrow> fetch_outcome \<Rightarrow> page_state" where
  "fetchProjects st r github huggingface =
     (case combine r github huggingface of
        Inl m \<Rightarrow> st\<lparr>loading := False, error := Some m\<rparr>
      | Inr allProjects \<Rightarrow> st\<lparr>shown := allProjects, loading := False, error := None\<rparr>)"

section \<open>Properties of the summarizer\<close>

subsection \<open>The sweep and the two ways through the handler\<close>

lemma clean_keeps:
  "c k = Some e \<Longrightarrow> now - timestamp e \<le> CACHE_DURATION \<Longrightarrow> cleanExpiredCache now c k = Some e"
  by (simp add: cleanExpiredCache_def)

lemma clean_purges:
  "c k = Some e \<Longrightarrow> CACHE_DURATION < now - timestamp e \<Longrightarrow> cleanExpiredCache now c k = None"
  by (simp add: cleanExpiredCache_def)

lemma clean_Some_iff:
  "cleanExpiredCache now c k = Some e \<longleftrightarrow> c k = Some e \<and> now - timestamp e \<le> CACHE_DURATION"
  by (auto simp: cleanExpiredCache_def split: option.splits if_splits)

lemma clean_forget:
  "c k = Some e \<Longrightarrow> CACHE_DURATION < now - timestamp e \<Longrightarrow>
   cleanExpiredCache now (c(k := None)) = cleanExpiredCache now c"
  by (rule ext) (simp add: cleanExpiredCache_def)

lemma POST_hit:
  "req_text b = Str t \<Longrightarrow> t \<noteq> [] \<Longrightarrow> cleanExpiredCache (t_sweep clk) c (hashText t) = Some e \<Longrightarrow>
   t_lookup clk - timestamp e < CACHE_DURATION \<Longrightarrow>
   POST clk fetch c (Json b) = (Summary (summary e) True, cleanExpiredCache (t_sweep clk) c, [])"
  by (simp add: POST_def)

lemma POST_no_hit:
  "req_text b = Str t \<Longrightarrow> t \<noteq> [] \<Longrightarrow>
   (\<And>e. cleanExpiredCache (t_sweep clk) c (hashText t) = Some e \<Longrightarrow> CACHE_DURATION \<le> t_lookup clk - timestamp e) \<Longrightarrow>
   POST clk fetch c (Json b) = POST_miss clk fetch (cleanExpiredCache (t_sweep clk) c) (hashText t) t b"
  by (auto simp: POST_def Let_def split: option.splits)

lemma POST_absent:
  "req_text b = Str t \<Longrightarrow> t \<noteq> [] \<Longrightarrow> cleanExpiredCache (t_sweep clk) c (hashText t) = None \<Longrightarrow>
   POST clk fetch c (Json b) = POST_miss clk fetch (cleanExpiredCache (t_sweep clk) c) (hashText t) t b"
  by (simp add: POST_def)

lemma POST_stale:
  "req_text b = Str t \<Longrightarrow> t \<noteq> [] \<Longrightarrow> cleanExpiredCache (t_sweep clk) c (hashText t) = Some e \<Longrightarrow>
   CACHE_DURATION \<le> t_lookup clk - timestamp e \<Longrightarrow>
   POST clk fetch c (Json b) = POST_miss clk fetch (cleanExpiredCache (t_sweep clk) c) (hashText t) t b"
  by (simp add: POST_def)

lemma POST_miss_not_cached: "fst (POST_miss clk fetch c k t b) \<noteq> Summary s True"
  by (auto simp: POST_miss_def split: option.splits sum.splits prod.splits)

lemma POST_miss_no_credential:
  "apiKey b = None \<or> apiKey b = Some [] \<Longrightarrow>
   POST_miss clk fetch c k t b = (Failure 400 ''API key is required. Please set it in Settings.'', c, [])"
  by (auto simp: POST_miss_def)

lemma summarize_unsupported:
  "p \<notin> {''openai'', ''anthropic'', ''groq''} \<Longrightarrow>
   summarizeWithLLM fetch t k p = (Inl (''Unsupported provider: '' @ p), [])"
  by (simp add: summarizeWithLLM_def)

text \<open>
  Claim C1. A request with a non-empty text whose key holds an entry younger than
  \<open>CACHE_DURATION\<close> when the handler computes its age (the clock not running backwards
  between the sweep and that reading) is answered with that entry's summary and
  \<open>cached = true\<close>; no network call is made, whatever the credential, the provider and
  the behaviour of the providers are.
\<close>

theorem C1_live_hit:
  assumes "req_text b = Str t" and "t \<noteq> []"
    and "c (hashText t) = Some e"
    and "t_sweep clk \<le> t_lookup clk"
    and "t_lookup clk - timestamp e < CACHE_DURATION"
  shows "POST clk fetch c (Json b) = (Summary (summary e) True, cleanExpiredCache (t_sweep clk) c, [])"
proof -
  from assms(4,5) have "t_sweep clk - timestamp e \<le> CACHE_DURATION" by linarith
  with assms(3) have "cleanExpiredCache (t_sweep clk) c (hashText t) = Some e"
    by (rule clean_keeps)
  then show ?thesis using assms(1,2,5) by (simp add: POST_hit)
qed

theorem C1_live_hit_witness:
  "req_text \<lparr>req_text = Str ''A tool for fast vector search.'', apiKey = None, provider = Some ''mistral''\<rparr>
     = Str ''A tool for fast vector search.''
   \<and> ''A tool for fast vector search.'' \<noteq> []
   \<and> (Map.empty(hashText ''A tool for fast vector search.'' \<mapsto> \<lparr>summary = ''Vector search tool.'', timestamp = 1000\<rparr>))
        (hashText ''A tool for fast vector search.'') = Some \<lparr>summary = ''Vector search tool.'', timestamp = 1000\<rparr>
   \<and> t_sweep \<lparr>t_sweep = 2000, t_lookup = 2001, t_store = 9000\<rparr> \<le> t_lookup \<lparr>t_sweep = 2000, t_lookup = 2001, t_store = 9000\<rparr>
   \<and> t_lookup \<lparr>t_sweep = 2000, t_lookup = 2001, t_store = 9000\<rparr> - timestamp \<lparr>summary = ''Vector search tool.'', timestamp = 1000\<rparr> < CACHE_DURATION
   \<and> POST \<lparr>t_sweep = 2000, t_lookup = 2001, t_store = 9000\<rparr> (\<lambda>r. Threw ''unreachable'')
        (Map.empty(hashText ''A tool for fast vector search.'' \<mapsto> \<lparr>summary = ''Vector search tool.'', timestamp = 1000\<rparr>))
        (Json \<lparr>req_text = Str ''A tool for fast vector search.'', apiKey = None, provider = Some ''mistral''\<rparr>)
     = (Summary ''Vector search tool.'' True,
        cleanExpiredCache 2000
          (Map.empty(hashText ''A tool for fast vector search.'' \<mapsto> \<lparr>summary = ''Vector search tool.'', timestamp = 1000\<rparr>)),
        [])"
  using C1_live_hit
    [of "\<lparr>req_text = Str ''A tool for fast vector search.'', apiKey = None, provider = Some ''mistral''\<rparr>"
        "''A tool for fast vector search.''"
        "Map.empty(hashText ''A tool for fast vector search.'' \<mapsto> \<lparr>summary = ''Vector search tool.'', timestamp = 1000\<rparr>)"
        "\<lparr>summary = ''Vector search tool.'', timestamp = 1000\<rparr>"
        "\<lparr>t_sweep = 2000, t_lookup = 2001, t_store = 9000\<rparr>"
        "\<lambda>r. Threw ''unreachable''"]
  by (simp add: CACHE_DURATION_def)

text \<open>
  Claim C2, as the code has it. A request with a non-empty text, a non-empty credential,
  no live cache entry and a provider other than \<open>openai\<close>, \<open>anthropic\<close> and \<open>groq\<close>
  fails with the error "Unsupported provider: " followed by the provider, after no network
  call; the Error is thrown inside \<open>summarizeWithLLM\<close> and reaches the handler's
  \<open>catch\<close>, so the status is 500.
\<close>

theorem C2_unsupported_provider_500:
  assumes "req_text b = Str t" and "t \<noteq> []"
    and "apiKey b = Some k" and "k \<noteq> []"
    and "provider b = Some p" and "p \<notin> {''openai'', ''anthropic'', ''groq''}"
    and "\<forall>e. cleanExpiredCache (t_sweep clk) c (hashText t) = Some e
              \<longrightarrow> CACHE_DURATION \<le> t_lookup clk - timestamp e"
  shows "POST clk fetch c (Json b)
           = (Failure 500 (''Unsupported provider: '' @ p), cleanExpiredCache (t_sweep clk) c, [])"
proof -
  have "POST clk fetch c (Json b)
          = POST_miss clk fetch (cleanExpiredCache (t_sweep clk) c) (hashText t) t b"
    using assms(1,2) by (rule POST_no_hit) (simp add: assms(7))
  also have "\<dots> = (Failure 500 (''Unsupported provider: '' @ p), cleanExpiredCache (t_sweep clk) c, [])"
    using assms(3-6) by (simp add: POST_miss_def summarize_unsupported)
  finally show ?thesis .
qed

theorem C2_unsupported_provider_500_witness:
  "req_text \<lparr>req_text = Str ''hello'', apiKey = Some ''sk-1'', provider = Some ''mistral''\<rparr> = Str ''hello''
   \<and> ''hello'' \<noteq> []
   \<and> apiKey \<lparr>req_text = Str ''hello'', apiKey = Some ''sk-1'', provider = Some ''mistral''\<rparr> = Some ''sk-1''
   \<and> ''sk-1'' \<noteq> []
   \<and> provider \<lparr>req_text = Str ''hello'', apiKey = Some ''sk-1'', provider = Some ''mistral''\<rparr> = Some ''mistral''
   \<and> ''mistral'' \<notin> {''openai'', ''anthropic'', ''groq''}
   \<and> cleanExpiredCache 2000 Map.empty (hashText ''hello'') = None
   \<and> POST \<lparr>t_sweep = 2000, t_lookup = 2001, t_store = 9000\<rparr> (\<lambda>r. Ok (Some ''unused'')) Map.empty
        (Json \<lparr>req_text = Str ''hello'', apiKey = Some ''sk-1'', provider = Some ''mistral''\<rparr>)
     = (Failure 500 ''Unsupported provider: mistral'', cleanExpiredCache 2000 Map.empty, [])"
  using C2_unsupported_provider_500
    [of "\<lparr>req_text = Str ''hello'', apiKey = Some ''sk-1'', provider = Some ''mistral''\<rparr>"
        "''hello''" "''sk-1''" "''mistral''"
        "\<lparr>t_sweep = 2000, t_lookup = 2001, t_store = 9000\<rparr>" Map.empty
        "\<lambda>r. Ok (Some ''unused'')"]
  by (simp add: cleanExpiredCache_def)

text \<open>
  Claim C2 as the specification states it asks for a client-error status. For the
  provider \<open>mistral\<close> the status is 500, which is not in the range 400 to 499.
\<close>

theorem C2_client_error_status_counterexample:
  "fst (POST \<lparr>t_sweep = 2000, t_lookup = 2001, t_store = 9000\<rparr> (\<lambda>r. Ok (Some ''unused'')) Map.empty
          (Json \<lparr>req_text = Str ''hello'', apiKey = Some ''sk-1'', provider = Some ''mistral''\<rparr>))
     = Failure 500 ''Unsupported provider: mistral''
   \<and> \<not> (400 \<le> status (fst (POST \<lparr>t_sweep = 2000, t_lookup = 2001, t_store = 9000\<rparr> (\<lambda>r. Ok (Some ''unused'')) Map.empty
          (Json \<lparr>req_text = Str ''hello'', apiKey = Some ''sk-1'', provider = Some ''mistral''\<rparr>)))
         \<and> status (fst (POST \<lparr>t_sweep = 2000, t_lookup = 2001, t_store = 9000\<rparr> (\<lambda>r. Ok (Some ''unused'')) Map.empty
          (Json \<lparr>req_text = Str ''hello'', apiKey = Some ''sk-1'', provider = Some ''mistral''\<rparr>))) < 500)"
  by (simp add: POST_def POST_miss_def cleanExpiredCache_def summarizeWithLLM_def)

text \<open>
  Claim C3. For a request with a non-empty text: an entry under the request's key that
  is older than \<open>CACHE_DURATION\<close> at the sweep is deleted by the sweep, and the request
  runs as it does on the cache without that entry, that is through the credential test,
  the upstream call and \<open>cached = false\<close>. And whenever a response carries
  \<open>cached = true\<close>, its summary is that of the entry under the key, whose age is at
  most \<open>CACHE_DURATION\<close> at the sweep and below it at the lookup.
\<close>

theorem C3_expired_is_miss:
  assumes "req_text b = Str t" and "t \<noteq> []"
  shows "(c (hashText t) = Some e \<and> CACHE_DURATION < t_sweep clk - timestamp e
          \<longrightarrow> cleanExpiredCache (t_sweep clk) c (hashText t) = None
              \<and> POST clk fetch c (Json b) = POST clk fetch (c(hashText t := None)) (Json b)
              \<and> POST clk fetch c (Json b)
                  = POST_miss clk fetch (cleanExpiredCache (t_sweep clk) c) (hashText t) t b)
       \<and> (fst (POST clk fetch c (Json b)) = Summary s True
          \<longrightarrow> (\<exists>e'. c (hashText t) = Some e' \<and> summary e' = s
                    \<and> t_sweep clk - timestamp e' \<le> CACHE_DURATION
                    \<and> t_lookup clk - timestamp e' < CACHE_DURATION))"
proof (intro conjI impI)
  assume old: "c (hashText t) = Some e \<and> CACHE_DURATION < t_sweep clk - timestamp e"
  then show gone: "cleanExpiredCache (t_sweep clk) c (hashText t) = None"
    by (simp add: clean_purges)
  then show as_miss: "POST clk fetch c (Json b)
      = POST_miss clk fetch (cleanExpiredCache (t_sweep clk) c) (hashText t) t b"
    using assms by (simp add: POST_absent)
  have same: "cleanExpiredCache (t_sweep clk) (c(hashText t := None)) = cleanExpiredCache (t_sweep clk) c"
    using old by (simp add: clean_forget)
  have "POST clk fetch (c(hashText t := None)) (Json b)
      = POST_miss clk fetch (cleanExpiredCache (t_sweep clk) (c(hashText t := None))) (hashText t) t b"
    using assms by (rule POST_no_hit) (simp add: clean_Some_iff)
  with as_miss same
  show "POST clk fetch c (Json b) = POST clk fetch (c(hashText t := None)) (Json b)"
    by simp
next
  assume hit: "fst (POST clk fetch c (Json b)) = Summary s True"
  show "\<exists>e'. c (hashText t) = Some e' \<and> summary e' = s
            \<and> t_sweep clk - timestamp e' \<le> CACHE_DURATION
            \<and> t_lookup clk - timestamp e' < CACHE_DURATION"
  proof (cases "cleanExpiredCache (t_sweep clk) c (hashText t)")
    case None
    then have "POST clk fetch c (Json b)
        = POST_miss clk fetch (cleanExpiredCache (t_sweep clk) c) (hashText t) t b"
      using assms by (simp add: POST_absent)
    with hit show ?thesis by (simp add: POST_miss_not_cached)
  next
    case (Some e')
    show ?thesis
    proof (cases "t_lookup clk - timestamp e' < CACHE_DURATION")
      case True
      with Some assms have "POST clk fetch c (Json b)
          = (Summary (summary e') True, cleanExpiredCache (t_sweep clk) c, [])"
        by (simp add: POST_hit)
      with hit have "summary e' = s" by simp
      with Some True show ?thesis by (auto simp: clean_Some_iff)
    next
      case False
      with Some have "POST clk fetch c (Json b)
          = POST_miss clk fetch (cleanExpiredCache (t_sweep clk) c) (hashText t) t b"
        using assms by (simp add: POST_stale)
      with hit show ?thesis by (simp add: POST_miss_not_cached)
    qed
  qed
qed

theorem C3_expired_is_miss_witness:
  "req_text \<lparr>req_text = Str ''hi'', apiKey = Some ''sk-1'', provider = None\<rparr> = Str ''hi''
   \<and> ''hi'' \<noteq> []
   \<and> (Map.empty(hashText ''hi'' \<mapsto> \<lparr>summary = ''old'', timestamp = 1000\<rparr>)) (hashText ''hi'')
       = Some \<lparr>summary = ''old'', timestamp = 1000\<rparr>
   \<and> CACHE_DURATION < t_sweep \<lparr>t_sweep = 400000, t_lookup = 400001, t_store = 401000\<rparr>
                         - timestamp \<lparr>summary = ''old'', timestamp = 1000\<rparr>
   \<and> cleanExpiredCache 400000 (Map.empty(hashText ''hi'' \<mapsto> \<lparr>summary = ''old'', timestamp = 1000\<rparr>))
        (hashText ''hi'') = None
   \<and> POST \<lparr>t_sweep = 400000, t_lookup = 400001, t_store = 401000\<rparr> (\<lambda>r. Ok (Some ''new''))
        (Map.empty(hashText ''hi'' \<mapsto> \<lparr>summary = ''old'', timestamp = 1000\<rparr>))
        (Json \<lparr>req_text = Str ''hi'', apiKey = Some ''sk-1'', provider = None\<rparr>)
     = POST \<lparr>t_sweep = 400000, t_lookup = 400001, t_store = 401000\<rparr> (\<lambda>r. Ok (Some ''new''))
        ((Map.empty(hashText ''hi'' \<mapsto> \<lparr>summary = ''old'', timestamp = 1000\<rparr>))(hashText ''hi'' := None))
        (Json \<lparr>req_text = Str ''hi'', apiKey = Some ''sk-1'', provider = None\<rparr>)"
  using C3_expired_is_miss
    [of "\<lparr>req_text = Str ''hi'', apiKey = Some ''sk-1'', provider = None\<rparr>" "''hi''"
        "Map.empty(hashText ''hi'' \<mapsto> \<lparr>summary = ''old'', timestamp = 1000\<rparr>)"
        "\<lparr>summary = ''old'', timestamp = 1000\<rparr>"
        "\<lparr>t_sweep = 400000, t_lookup = 400001, t_store = 401000\<rparr>"
        "\<lambda>r. Ok (Some ''new'')"]
  by (simp add: CACHE_DURATION_def)

text \<open>
  Claim C4. A request whose text is absent, not a string or the empty string is answered
  with status 400 and the error "Text is required"; the cache is left as it was (not even
  swept), no network call is made, and neither the credential nor the provider is looked at.
\<close>

theorem C4_empty_text_rejected:
  assumes "req_text b = Absent \<or> req_text b = NonString \<or> req_text b = Str []"
  shows "POST clk fetch c (Json b) = (Failure 400 ''Text is required'', c, [])"
  using assms by (auto simp: POST_def)

theorem C4_empty_text_rejected_witness:
  "req_text \<lparr>req_text = Str [], apiKey = Some ''sk-1'', provider = Some ''groq''\<rparr> = Str []
   \<and> POST \<lparr>t_sweep = 1000000, t_lookup = 1000000, t_store = 1000000\<rparr> (\<lambda>r. Ok (Some ''never asked''))
        (Map.empty(''0'' \<mapsto> \<lparr>summary = ''old'', timestamp = 0\<rparr>))
        (Json \<lparr>req_text = Str [], apiKey = Some ''sk-1'', provider = Some ''groq''\<rparr>)
      = (Failure 400 ''Text is required'',
         Map.empty(''0'' \<mapsto> \<lparr>summary = ''old'', timestamp = 0\<rparr>), [])"
  using C4_empty_text_rejected
    [of "\<lparr>req_text = Str [], apiKey = Some ''sk-1'', provider = Some ''groq''\<rparr>"
        "\<lparr>t_sweep = 1000000, t_lookup = 1000000, t_store = 1000000\<rparr>"
        "\<lambda>r. Ok (Some ''never asked'')"
        "Map.empty(''0'' \<mapsto> \<lparr>summary = ''old'', timestamp = 0\<rparr>)"]
  by simp

text \<open>
  Claim C10. For a request with a non-empty text and no credential (absent or empty):
  when the key holds an entry younger than \<open>CACHE_DURATION\<close> at the lookup, the answer
  is that entry's summary with \<open>cached = true\<close>; and the answer is the status-400 error
  "API key is required" exactly when the swept cache holds no entry under the key that is
  younger than \<open>CACHE_DURATION\<close> at the lookup.
\<close>

theorem C10_credential_checked_after_cache:
  assumes "req_text b = Str t" and "t \<noteq> []"
    and "apiKey b = None \<or> apiKey b = Some []"
  shows "(c (hashText t) = Some e \<and> t_sweep clk \<le> t_lookup clk
            \<and> t_lookup clk - timestamp e < CACHE_DURATION
          \<longrightarrow> POST clk fetch c (Json b)
                = (Summary (summary e) True, cleanExpiredCache (t_sweep clk) c, []))
       \<and> (fst (POST clk fetch c (Json b))
             = Failure 400 ''API key is required. Please set it in Settings.''
          \<longleftrightarrow> (\<forall>e'. cleanExpiredCache (t_sweep clk) c (hashText t) = Some e'
                      \<longrightarrow> CACHE_DURATION \<le> t_lookup clk - timestamp e'))"
proof (intro conjI impI)
  assume live: "c (hashText t) = Some e \<and> t_sweep clk \<le> t_lookup clk
                  \<and> t_lookup clk - timestamp e < CACHE_DURATION"
  then have "t_sweep clk - timestamp e \<le> CACHE_DURATION" by linarith
  with live have "cleanExpiredCache (t_sweep clk) c (hashText t) = Some e"
    by (simp add: clean_keeps)
  then show "POST clk fetch c (Json b)
               = (Summary (summary e) True, cleanExpiredCache (t_sweep clk) c, [])"
    using assms(1,2) live by (simp add: POST_hit)
next
  show "fst (POST clk fetch c (Json b))
          = Failure 400 ''API key is required. Please set it in Settings.''
        \<longleftrightarrow> (\<forall>e'. cleanExpiredCache (t_sweep clk) c (hashText t) = Some e'
                    \<longrightarrow> CACHE_DURATION \<le> t_lookup clk - timestamp e')"
  proof (cases "\<exists>e'. cleanExpiredCache (t_sweep clk) c (hashText t) = Some e'
                      \<and> t_lookup clk - timestamp e' < CACHE_DURATION")
    case True
    then obtain e' where e': "cleanExpiredCache (t_sweep clk) c (hashText t) = Some e'"
      "t_lookup clk - timestamp e' < CACHE_DURATION" by blast
    then have "fst (POST clk fetch c (Json b)) = Summary (summary e') True"
      using assms(1,2) by (simp add: POST_hit)
    with e' show ?thesis by auto
  next
    case False
    then have miss: "\<And>e'. cleanExpiredCache (t_sweep clk) c (hashText t) = Some e'
                        \<Longrightarrow> CACHE_DURATION \<le> t_lookup clk - timestamp e'"
      by (meson not_le)
    have "POST clk fetch c (Json b)
            = POST_miss clk fetch (cleanExpiredCache (t_sweep clk) c) (hashText t) t b"
      using assms(1,2) miss by (rule POST_no_hit)
    then show ?thesis using assms(3) miss by (simp add: POST_miss_no_credential)
  qed
qed

theorem C10_credential_checked_after_cache_witness:
  "req_text \<lparr>req_text = Str ''hi'', apiKey = None, provider = None\<rparr> = Str ''hi''
   \<and> ''hi'' \<noteq> []
   \<and> apiKey \<lparr>req_text = Str ''hi'', apiKey = None, provider = None\<rparr> = None
   \<and> (Map.empty(hashText ''hi'' \<mapsto> \<lparr>summary = ''kept'', timestamp = 1000\<rparr>)) (hashText ''hi'')
       = Some \<lparr>summary = ''kept'', timestamp = 1000\<rparr>
   \<and> t_sweep \<lparr>t_sweep = 2000, t_lookup = 2001, t_store = 9000\<rparr>
       \<le> t_lookup \<lparr>t_sweep = 2000, t_lookup = 2001, t_store = 9000\<rparr>
   \<and> t_lookup \<lparr>t_sweep = 2000, t_lookup = 2001, t_store = 9000\<rparr>
         - timestamp \<lparr>summary = ''kept'', timestamp = 1000\<rparr> < CACHE_DURATION
   \<and> POST \<lparr>t_sweep = 2000, t_lookup = 2001, t_store = 9000\<rparr> (\<lambda>r. Threw ''unreachable'')
        (Map.empty(hashText ''hi'' \<mapsto> \<lparr>summary = ''kept'', timestamp = 1000\<rparr>))
        (Json \<lparr>req_text = Str ''hi'', apiKey = None, provider = None\<rparr>)
     = (Summary ''kept'' True,
        cleanExpiredCache 2000 (Map.empty(hashText ''hi'' \<mapsto> \<lparr>summary = ''kept'', timestamp = 1000\<rparr>)),
        [])"
  using C10_credential_checked_after_cache
    [of "\<lparr>req_text = Str ''hi'', apiKey = None, provider = None\<rparr>" "''hi''"
        "Map.empty(hashText ''hi'' \<mapsto> \<lparr>summary = ''kept'', timestamp = 1000\<rparr>)"
        "\<lparr>summary = ''kept'', timestamp = 1000\<rparr>"
        "\<lparr>t_sweep = 2000, t_lookup = 2001, t_store = 9000\<rparr>"
        "\<lambda>r. Threw ''unreachable''"]
  by (simp add: CACHE_DURATION_def)

section \<open>Properties of the GitHub fetcher\<close>

subsection \<open>Ranking\<close>

lemma sortByStars_sorted: "sorted_wrt (\<lambda>a b. stars b \<le> stars a) (sortByStars ps)"
proof -
  have "sorted (map (\<lambda>p. - stars p) (sort_key (\<lambda>p. - stars p) ps))"
    by (rule sorted_sort_key)
  then show ?thesis by (simp add: sortByStars_def sorted_map)
qed

lemma sortByStars_mset: "mset (sortByStars ps) = mset ps"
  by (simp add: sortByStars_def)

lemma sortByStars_set: "set (sortByStars ps) = set ps"
  by (simp add: sortByStars_def)

subsection \<open>Merging the query results\<close>

lemma mergeQueries_flat:
  "foldl (\<lambda>allRepos out. foldl addRepo allRepos (itemsOf out)) m outs
     = foldl addRepo m (concat (map itemsOf outs))"
  by (induction outs arbitrary: m) simp_all

lemma map_of_addRepo:
  "map_of (addRepo m repo) n
     = (case map_of m n of Some r \<Rightarrow> Some r | None \<Rightarrow> if full_name repo = n then Some repo else None)"
  by (auto simp: addRepo_def map_add_def split: option.splits)

lemma map_of_foldl_addRepo:
  "map_of (foldl addRepo m repos) n
     = (case map_of m n of Some r \<Rightarrow> Some r | None \<Rightarrow> List.find (\<lambda>repo. full_name repo = n) repos)"
  by (induction repos arbitrary: m) (auto simp: map_of_addRepo split: option.splits)

lemma distinct_addRepo:
  "distinct (map fst m) \<Longrightarrow> distinct (map fst (addRepo m repo))"
  by (auto simp: addRepo_def map_of_eq_None_iff)

lemma distinct_foldl_addRepo:
  "distinct (map fst m) \<Longrightarrow> distinct (map fst (foldl addRepo m repos))"
  by (induction repos arbitrary: m) (simp_all add: distinct_addRepo)

lemma filter_key_distinct:
  "distinct (map fst m) \<Longrightarrow> map_of m n = Some r \<Longrightarrow> filter (\<lambda>kv. fst kv = n) m = [(n, r)]"
proof (induction m)
  case Nil
  then show ?case by simp
next
  case (Cons kv m)
  show ?case
  proof (cases "fst kv = n")
    case True
    with Cons.prems have "kv = (n, r)" by (cases kv) simp
    moreover from True Cons.prems have "n \<notin> fst ` set m" by simp
    then have "filter (\<lambda>kv. fst kv = n) m = []" by (auto simp: filter_empty_conv)
    ultimately show ?thesis by simp
  next
    case False
    with Cons show ?thesis by (cases kv) auto
  qed
qed

text \<open>
  Claim C5. Take the items of all queries in the order of the queries, failed queries
  giving none. When a full name occurs among them, the merged map has exactly one entry
  under that name, and it is the first item with that name: the version of the earliest
  query that returned it.
\<close>

theorem C5_first_occurrence_wins:
  assumes "List.find (\<lambda>repo. full_name repo = n) (concat (map itemsOf outs)) = Some first"
  shows "filter (\<lambda>kv. fst kv = n) (mergeQueries outs) = [(n, first)]"
proof -
  have "map_of (mergeQueries outs) n = Some first"
    using assms by (simp add: mergeQueries_def mergeQueries_flat map_of_foldl_addRepo)
  moreover have "distinct (map fst (mergeQueries outs))"
    by (simp add: mergeQueries_def mergeQueries_flat distinct_foldl_addRepo)
  ultimately show ?thesis by (simp add: filter_key_distinct)
qed

theorem C5_first_occurrence_wins_witness:
  "List.find (\<lambda>repo. full_name repo = ''org/a'')
     (concat (map itemsOf
        [SearchOk (Some [\<lparr>repo_id = 101, repo_name = ''a'', full_name = ''org/a'',
             repo_description = Some ''first'', html_url = ''https://github.com/org/a'',
             stargazers_count = 50, repo_language = Some ''Python'', repo_topics = Some [''ai''],
             created_at = ''2024-01-01'', pushed_at = ''2024-05-02''\<rparr>]),
         SearchOk (Some [\<lparr>repo_id = 101, repo_name = ''a'', full_name = ''org/a'',
             repo_description = Some ''second'', html_url = ''https://github.com/org/a'',
             stargazers_count = 51, repo_language = Some ''Python'', repo_topics = Some [''ai''],
             created_at = ''2024-01-01'', pushed_at = ''2024-05-02''\<rparr>])]))
     = Some \<lparr>repo_id = 101, repo_name = ''a'', full_name = ''org/a'',
             repo_description = Some ''first'', html_url = ''https://github.com/org/a'',
             stargazers_count = 50, repo_language = Some ''Python'', repo_topics = Some [''ai''],
             created_at = ''2024-01-01'', pushed_at = ''2024-05-02''\<rparr>
   \<and> filter (\<lambda>kv. fst kv = ''org/a'')
       (mergeQueries
        [SearchOk (Some [\<lparr>repo_id = 101, repo_name = ''a'', full_name = ''org/a'',
             repo_description = Some ''first'', html_url = ''https://github.com/org/a'',
             stargazers_count = 50, repo_language = Some ''Python'', repo_topics = Some [''ai''],
             created_at = ''2024-01-01'', pushed_at = ''2024-05-02''\<rparr>]),
         SearchOk (Some [\<lparr>repo_id = 101, repo_name = ''a'', full_name = ''org/a'',
             repo_description = Some ''second'', html_url = ''https://github.com/org/a'',
             stargazers_count = 51, repo_language = Some ''Python'', repo_topics = Some [''ai''],
             created_at = ''2024-01-01'', pushed_at = ''2024-05-02''\<rparr>])])
     = [(''org/a'', \<lparr>repo_id = 101, repo_name = ''a'', full_name = ''org/a'',
             repo_description = Some ''first'', html_url = ''https://github.com/org/a'',
             stargazers_count = 50, repo_language = Some ''Python'', repo_topics = Some [''ai''],
             created_at = ''2024-01-01'', pushed_at = ''2024-05-02''\<rparr>)]"
  (is "?hyp \<and> ?concl")
proof -
  have h: ?hyp by (simp add: itemsOf_def)
  have ?concl by (rule C5_first_occurrence_wins [OF h])
  with h show ?thesis by (rule conjI)
qed

subsection \<open>The topic filter\<close>

lemma topicLower_toProject:
  "toProject r = toProject r' \<Longrightarrow> topicLower r = topicLower r'"
proof -
  assume "toProject r = toProject r'"
  then have "topics (toProject r) = topics (toProject r')" by simp
  then show ?thesis by (simp add: toProject_def topicLower_def)
qed

lemma toProject_in_filterAndMap:
  "toProject repo \<in> set (filterAndMap repos) \<Longrightarrow> topicFilter repo"
proof -
  assume "toProject repo \<in> set (filterAndMap repos)"
  then obtain r' where "topicFilter r'" "toProject r' = toProject repo"
    by (auto simp: filterAndMap_def)
  then show ?thesis using topicLower_toProject[of r' repo] by (simp add: topicFilter_def)
qed

text \<open>
  Claim C6. A repository whose topics, lower-cased and joined with spaces, contain none
  of the eight keywords as a substring has no project in the list the handler returns,
  whatever the queries returned; a repository among the merged ones whose joined topics
  contain one of the keywords passes the filter and is mapped to a project, which is in
  the returned list when no more than 50 projects pass (the cut to 50 drops the rest).
\<close>

theorem C6_topic_post_filter:
  "((\<forall>kw \<in> set [''ai'', ''machine-learning'', ''artificial-intelligence'', ''ml'',
                  ''deep-learning'', ''neural-network'', ''llm'', ''nlp''].
        \<not> str_includes (topicLower repo) kw)
     \<longrightarrow> toProject repo \<notin> set (projects (GET_github dateStr search)))
   \<and> (repo \<in> set repos \<and>
       (\<exists>kw \<in> set [''ai'', ''machine-learning'', ''artificial-intelligence'', ''ml'',
                  ''deep-learning'', ''neural-network'', ''llm'', ''nlp''].
        str_includes (topicLower repo) kw)
     \<longrightarrow> repo \<in> set (filter topicFilter repos) \<and> toProject repo \<in> set (filterAndMap repos))
   \<and> (repo \<in> set (map snd (mergeQueries (map search (queries dateStr)))) \<and>
       (\<exists>kw \<in> set [''ai'', ''machine-learning'', ''artificial-intelligence'', ''ml'',
                  ''deep-learning'', ''neural-network'', ''llm'', ''nlp''].
        str_includes (topicLower repo) kw) \<and>
       length (filterAndMap (map snd (mergeQueries (map search (queries dateStr))))) \<le> 50
     \<longrightarrow> toProject repo \<in> set (projects (GET_github dateStr search)))"
proof (intro conjI impI)
  assume none: "\<forall>kw \<in> set [''ai'', ''machine-learning'', ''artificial-intelligence'', ''ml'',
                  ''deep-learning'', ''neural-network'', ''llm'', ''nlp''].
        \<not> str_includes (topicLower repo) kw"
  then have no: "\<not> topicFilter repo" by (simp add: topicFilter_def)
  show "toProject repo \<notin> set (projects (GET_github dateStr search))"
  proof
    assume "toProject repo \<in> set (projects (GET_github dateStr search))"
    then have "toProject repo \<in> set (filterAndMap (map snd (mergeQueries (map search (queries dateStr)))))"
      by (auto simp: GET_github_def Let_def sortByStars_set dest: in_set_takeD)
    with no show False by (blast dest: toProject_in_filterAndMap)
  qed
next
  assume some: "repo \<in> set repos \<and>
       (\<exists>kw \<in> set [''ai'', ''machine-learning'', ''artificial-intelligence'', ''ml'',
                  ''deep-learning'', ''neural-network'', ''llm'', ''nlp''].
        str_includes (topicLower repo) kw)"
  then have "topicFilter repo" by (simp add: topicFilter_def)
  with some show "repo \<in> set (filter topicFilter repos)" by simp
  then show "toProject repo \<in> set (filterAndMap repos)" by (simp add: filterAndMap_def)
next
  assume all: "repo \<in> set (map snd (mergeQueries (map search (queries dateStr)))) \<and>
       (\<exists>kw \<in> set [''ai'', ''machine-learning'', ''artificial-intelligence'', ''ml'',
                  ''deep-learning'', ''neural-network'', ''llm'', ''nlp''].
        str_includes (topicLower repo) kw) \<and>
       length (filterAndMap (map snd (mergeQueries (map search (queries dateStr))))) \<le> 50"
  then have "topicFilter repo" by (simp add: topicFilter_def)
  with all have "toProject repo \<in> set (filterAndMap (map snd (mergeQueries (map search (queries dateStr)))))"
    by (simp add: filterAndMap_def)
  moreover from all
  have "take 50 (sortByStars (filterAndMap (map snd (mergeQueries (map search (queries dateStr))))))
          = sortByStars (filterAndMap (map snd (mergeQueries (map search (queries dateStr)))))"
    by (simp add: sortByStars_def)
  ultimately show "toProject repo \<in> set (projects (GET_github dateStr search))"
    by (simp add: GET_github_def Let_def sortByStars_set)
qed

theorem C6_topic_post_filter_witness:
  "\<not> str_includes (topicLower \<lparr>repo_id = 102, repo_name = ''b'', full_name = ''org/b'',
          repo_description = None, html_url = ''https://github.com/org/b'',
          stargazers_count = 70, repo_language = None, repo_topics = Some [''web'', ''CSS''],
          created_at = ''2024-01-01'', pushed_at = ''2024-05-02''\<rparr>) ''ai''
   \<and> toProject \<lparr>repo_id = 102, repo_name = ''b'', full_name = ''org/b'',
          repo_description = None, html_url = ''https://github.com/org/b'',
          stargazers_count = 70, repo_language = None, repo_topics = Some [''web'', ''CSS''],
          created_at = ''2024-01-01'', pushed_at = ''2024-05-02''\<rparr>
       \<notin> set (projects (GET_github ''2024-05-01''
            (\<lambda>q. if q = ''topic:AI pushed:>2024-05-01 stars:>10''
                 then SearchOk (Some
                   [\<lparr>repo_id = 102, repo_name = ''b'', full_name = ''org/b'',
                      repo_description = None, html_url = ''https://github.com/org/b'',
                      stargazers_count = 70, repo_language = None, repo_topics = Some [''web'', ''CSS''],
                      created_at = ''2024-01-01'', pushed_at = ''2024-05-02''\<rparr>,
                    \<lparr>repo_id = 103, repo_name = ''c'', full_name = ''org/c'',
                      repo_description = None, html_url = ''https://github.com/org/c'',
                      stargazers_count = 90, repo_language = Some ''Ruby'', repo_topics = Some [''Rails''],
                      created_at = ''2024-01-01'', pushed_at = ''2024-05-02''\<rparr>])
                 else SearchFailed)))
   \<and> str_includes (topicLower \<lparr>repo_id = 103, repo_name = ''c'', full_name = ''org/c'',
                      repo_description = None, html_url = ''https://github.com/org/c'',
                      stargazers_count = 90, repo_language = Some ''Ruby'', repo_topics = Some [''Rails''],
                      created_at = ''2024-01-01'', pushed_at = ''2024-05-02''\<rparr>) ''ai''
   \<and> toProject \<lparr>repo_id = 103, repo_name = ''c'', full_name = ''org/c'',
                      repo_description = None, html_url = ''https://github.com/org/c'',
                      stargazers_count = 90, repo_language = Some ''Ruby'', repo_topics = Some [''Rails''],
                      created_at = ''2024-01-01'', pushed_at = ''2024-05-02''\<rparr>
       \<in> set (projects (GET_github ''2024-05-01''
            (\<lambda>q. if q = ''topic:AI pushed:>2024-05-01 stars:>10''
                 then SearchOk (Some
                   [\<lparr>repo_id = 102, repo_name = ''b'', full_name = ''org/b'',
                      repo_description = None, html_url = ''https://github.com/org/b'',
                      stargazers_count = 70, repo_language = None, repo_topics = Some [''web'', ''CSS''],
                      created_at = ''2024-01-01'', pushed_at = ''2024-05-02''\<rparr>,
                    \<lparr>repo_id = 103, repo_name = ''c'', full_name = ''org/c'',
                      repo_description = None, html_url = ''https://github.com/org/c'',
                      stargazers_count = 90, repo_language = Some ''Ruby'', repo_topics = Some [''Rails''],
                      created_at = ''2024-01-01'', pushed_at = ''2024-05-02''\<rparr>])
                 else SearchFailed)))"
  (is "?none \<and> ?dropped \<and> ?some \<and> ?kept")
proof -
  have h: "\<forall>kw \<in> set [''ai'', ''machine-learning'', ''artificial-intelligence'', ''ml'',
                  ''deep-learning'', ''neural-network'', ''llm'', ''nlp''].
        \<not> str_includes (topicLower \<lparr>repo_id = 102, repo_name = ''b'', full_name = ''org/b'',
          repo_description = None, html_url = ''https://github.com/org/b'',
          stargazers_count = 70, repo_language = None, repo_topics = Some [''web'', ''CSS''],
          created_at = ''2024-01-01'', pushed_at = ''2024-05-02''\<rparr>) kw"
    by code_simp
  then have n: ?none by simp
  have d: ?dropped using C6_topic_post_filter h by blast
  have s: ?some by code_simp
  have m: "\<lparr>repo_id = 103, repo_name = ''c'', full_name = ''org/c'',
                      repo_description = None, html_url = ''https://github.com/org/c'',
                      stargazers_count = 90, repo_language = Some ''Ruby'', repo_topics = Some [''Rails''],
                      created_at = ''2024-01-01'', pushed_at = ''2024-05-02''\<rparr>
        \<in> set (map snd (mergeQueries (map
            (\<lambda>q. if q = ''topic:AI pushed:>2024-05-01 stars:>10''
                 then SearchOk (Some
                   [\<lparr>repo_id = 102, repo_name = ''b'', full_name = ''org/b'',
                      repo_description = None, html_url = ''https://github.com/org/b'',
                      stargazers_count = 70, repo_language = None, repo_topics = Some [''web'', ''CSS''],
                      created_at = ''2024-01-01'', pushed_at = ''2024-05-02''\<rparr>,
                    \<lparr>repo_id = 103, repo_name = ''c'', full_name = ''org/c'',
                      repo_description = None, html_url = ''https://github.com/org/c'',
                      stargazers_count = 90, repo_language = Some ''Ruby'', repo_topics = Some [''Rails''],
                      created_at = ''2024-01-01'', pushed_at = ''2024-05-02''\<rparr>])
                 else SearchFailed) (queries ''2024-05-01''))))"
    by code_simp
  have l: "length (filterAndMap (map snd (mergeQueries (map
            (\<lambda>q. if q = ''topic:AI pushed:>2024-05-01 stars:>10''
                 then SearchOk (Some
                   [\<lparr>repo_id = 102, repo_name = ''b'', full_name = ''org/b'',
                      repo_description = None, html_url = ''https://github.com/org/b'',
                      stargazers_count = 70, repo_language = None, repo_topics = Some [''web'', ''CSS''],
                      created_at = ''2024-01-01'', pushed_at = ''2024-05-02''\<rparr>,
                    \<lparr>repo_id = 103, repo_name = ''c'', full_name = ''org/c'',
                      repo_description = None, html_url = ''https://github.com/org/c'',
                      stargazers_count = 90, repo_language = Some ''Ruby'', repo_topics = Some [''Rails''],
                      created_at = ''2024-01-01'', pushed_at = ''2024-05-02''\<rparr>])
                 else SearchFailed) (queries ''2024-05-01''))))) \<le> 50"
    by code_simp
  have k: ?kept using C6_topic_post_filter m s l by (meson list.set_intros(1))
  from n d s k show ?thesis by simp
qed

text \<open>
  Claim C7. Whatever the queries return, the projects the handler returns are in
  non-increasing order of stars and at most 50, and \<open>count\<close> is their number.
\<close>

theorem C7_sorted_and_capped:
  "sorted_wrt (\<lambda>a b. stars b \<le> stars a) (projects (GET_github dateStr search))
   \<and> length (projects (GET_github dateStr search)) \<le> 50
   \<and> count (GET_github dateStr search) = length (projects (GET_github dateStr search))"
  by (simp add: GET_github_def Let_def sortByStars_sorted)

theorem C7_sorted_and_capped_witness:
  "sorted_wrt (\<lambda>a b. stars b \<le> stars a)
     (projects (GET_github ''2024-05-01''
        (\<lambda>q. if q = ''topic:AI pushed:>2024-05-01 stars:>10''
             then SearchOk (Some
               [\<lparr>repo_id = 101, repo_name = ''a'', full_name = ''org/a'',
                  repo_description = Some ''first'', html_url = ''https://github.com/org/a'',
                  stargazers_count = 50, repo_language = Some ''Python'', repo_topics = Some [''ai''],
                  created_at = ''2024-01-01'', pushed_at = ''2024-05-02''\<rparr>,
                \<lparr>repo_id = 103, repo_name = ''c'', full_name = ''org/c'',
                  repo_description = None, html_url = ''https://github.com/org/c'',
                  stargazers_count = 90, repo_language = None, repo_topics = Some [''llm''],
                  created_at = ''2024-01-01'', pushed_at = ''2024-05-02''\<rparr>])
             else SearchFailed)))
   \<and> map stars (projects (GET_github ''2024-05-01''
        (\<lambda>q. if q = ''topic:AI pushed:>2024-05-01 stars:>10''
             then SearchOk (Some
               [\<lparr>repo_id = 101, repo_name = ''a'', full_name = ''org/a'',
                  repo_description = Some ''first'', html_url = ''https://github.com/org/a'',
                  stargazers_count = 50, repo_language = Some ''Python'', repo_topics = Some [''ai''],
                  created_at = ''2024-01-01'', pushed_at = ''2024-05-02''\<rparr>,
                \<lparr>repo_id = 103, repo_name = ''c'', full_name = ''org/c'',
                  repo_description = None, html_url = ''https://github.com/org/c'',
                  stargazers_count = 90, repo_language = None, repo_topics = Some [''llm''],
                  created_at = ''2024-01-01'', pushed_at = ''2024-05-02''\<rparr>])
             else SearchFailed))) = [90, 50]"
  (is "?sorted \<and> ?run")
proof -
  have ?sorted using C7_sorted_and_capped by (rule conjunct1)
  moreover have ?run by code_simp
  ultimately show ?thesis by (rule conjI)
qed

section \<open>Properties of the Hugging Face fetcher\<close>

lemma foldl_pushSpace:
  "foldl pushSpace acc spaces
     = acc @ map spaceProject (filter (\<lambda>sp. 0 < spaceLikes sp \<and> spaceId sp \<noteq> []) spaces)"
  by (induction spaces arbitrary: acc) (simp_all add: pushSpace_def)

lemma spaceProject_eq:
  "spaceProject sp = spaceProject sp' \<Longrightarrow> spaceLikes sp = spaceLikes sp' \<and> spaceId sp = spaceId sp'"
proof -
  assume eq: "spaceProject sp = spaceProject sp'"
  then have "stars (spaceProject sp) = stars (spaceProject sp')"
    and "name (spaceProject sp) = name (spaceProject sp')" by simp_all
  then show ?thesis by (simp add: spaceProject_def)
qed

text \<open>
  Claim C8. When the hub answers with a list of spaces, the project of a space of that
  list is in the output exactly when the likes resolved through the fallback chain are
  above 0 and the identifier resolved from \<open>id\<close> and \<open>name\<close> is not empty; the output
  is a rearrangement of the projects of the spaces that pass this test.
\<close>

theorem C8_hub_filter:
  assumes "sp \<in> set spaces"
  shows "(spaceProject sp \<in> set (projects (GET_huggingface (HubOk spaces)))
            \<longleftrightarrow> 0 < spaceLikes sp \<and> spaceId sp \<noteq> [])
       \<and> mset (projects (GET_huggingface (HubOk spaces)))
           = mset (map spaceProject (filter (\<lambda>sp. 0 < spaceLikes sp \<and> spaceId sp \<noteq> []) spaces))"
proof
  show "spaceProject sp \<in> set (projects (GET_huggingface (HubOk spaces)))
          \<longleftrightarrow> 0 < spaceLikes sp \<and> spaceId sp \<noteq> []"
  proof
    assume "spaceProject sp \<in> set (projects (GET_huggingface (HubOk spaces)))"
    then obtain sp' where "0 < spaceLikes sp' \<and> spaceId sp' \<noteq> []" "spaceProject sp' = spaceProject sp"
      by (auto simp: GET_huggingface_def Let_def sortByStars_set foldl_pushSpace)
    then show "0 < spaceLikes sp \<and> spaceId sp \<noteq> []"
      using spaceProject_eq[of sp' sp] by simp
  next
    assume "0 < spaceLikes sp \<and> spaceId sp \<noteq> []"
    with assms show "spaceProject sp \<in> set (projects (GET_huggingface (HubOk spaces)))"
      by (auto simp: GET_huggingface_def Let_def sortByStars_set foldl_pushSpace)
  qed
next
  show "mset (projects (GET_huggingface (HubOk spaces)))
           = mset (map spaceProject (filter (\<lambda>sp. 0 < spaceLikes sp \<and> spaceId sp \<noteq> []) spaces))"
    by (simp add: GET_huggingface_def Let_def sortByStars_mset foldl_pushSpace)
qed

theorem C8_hub_filter_witness:
  "\<lparr>space_id = Some ''b/y'', space_name = None, space_description = None, space_card = None,
      title = None, likes = Some 1, likeCount = None, like_count = None, sdk = None\<rparr>
     \<in> set [\<lparr>space_id = Some ''a/x'', space_name = None, space_description = None, space_card = None,
               title = None, likes = Some 0, likeCount = None, like_count = None, sdk = None\<rparr>,
             \<lparr>space_id = Some ''b/y'', space_name = None, space_description = None, space_card = None,
               title = None, likes = Some 1, likeCount = None, like_count = None, sdk = None\<rparr>]
   \<and> spaceLikes \<lparr>space_id = Some ''b/y'', space_name = None, space_description = None, space_card = None,
      title = None, likes = Some 1, likeCount = None, like_count = None, sdk = None\<rparr> = 1
   \<and> spaceId \<lparr>space_id = Some ''b/y'', space_name = None, space_description = None, space_card = None,
      title = None, likes = Some 1, likeCount = None, like_count = None, sdk = None\<rparr> = ''b/y''
   \<and> spaceProject \<lparr>space_id = Some ''b/y'', space_name = None, space_description = None, space_card = None,
      title = None, likes = Some 1, likeCount = None, like_count = None, sdk = None\<rparr>
     \<in> set (projects (GET_huggingface (HubOk
           [\<lparr>space_id = Some ''a/x'', space_name = None, space_description = None, space_card = None,
               title = None, likes = Some 0, likeCount = None, like_count = None, sdk = None\<rparr>,
             \<lparr>space_id = Some ''b/y'', space_name = None, space_description = None, space_card = None,
               title = None, likes = Some 1, likeCount = None, like_count = None, sdk = None\<rparr>])))
   \<and> spaceLikes \<lparr>space_id = Some ''a/x'', space_name = None, space_description = None, space_card = None,
      title = None, likes = Some 0, likeCount = None, like_count = None, sdk = None\<rparr> = 0
   \<and> spaceProject \<lparr>space_id = Some ''a/x'', space_name = None, space_description = None, space_card = None,
      title = None, likes = Some 0, likeCount = None, like_count = None, sdk = None\<rparr>
     \<notin> set (projects (GET_huggingface (HubOk
           [\<lparr>space_id = Some ''a/x'', space_name = None, space_description = None, space_card = None,
               title = None, likes = Some 0, likeCount = None, like_count = None, sdk = None\<rparr>,
             \<lparr>space_id = Some ''b/y'', space_name = None, space_description = None, space_card = None,
               title = None, likes = Some 1, likeCount = None, like_count = None, sdk = None\<rparr>])))"
  (is "?mem \<and> ?likes \<and> ?id \<and> ?out \<and> ?nolikes \<and> ?absent")
proof -
  have m: ?mem by simp
  have l: ?likes by (simp add: spaceLikes_def nonZero_def)
  have i: ?id by (simp add: spaceId_def nonEmpty_def)
  have o: ?out using C8_hub_filter [OF m] l i by simp
  have m0: "\<lparr>space_id = Some ''a/x'', space_name = None, space_description = None, space_card = None,
               title = None, likes = Some 0, likeCount = None, like_count = None, sdk = None\<rparr>
     \<in> set [\<lparr>space_id = Some ''a/x'', space_name = None, space_description = None, space_card = None,
               title = None, likes = Some 0, likeCount = None, like_count = None, sdk = None\<rparr>,
             \<lparr>space_id = Some ''b/y'', space_name = None, space_description = None, space_card = None,
               title = None, likes = Some 1, likeCount = None, like_count = None, sdk = None\<rparr>]"
    by simp
  have l0: ?nolikes by (simp add: spaceLikes_def nonZero_def)
  have o0: ?absent using C8_hub_filter [OF m0] l0 by simp
  from m l i o l0 o0 show ?thesis by simp
qed

section \<open>Properties of the aggregator\<close>

lemma combine_responses:
  "combine r (Response ok b) (Response ok' b') =
     (if \<not> ok \<and> \<not> ok' then Inl ''Failed to fetch projects''
      else (case readProjects ok b of
              Inl m \<Rightarrow> Inl m
            | Inr gs \<Rightarrow> (case readProjects ok' b' of
                           Inl m' \<Rightarrow> Inl m'
                         | Inr hs \<Rightarrow> Inr (sortByStars (gs @ hs)))))"
  by (simp add: combine_def)

text \<open>
  What the handler does when both fetches resolve to a response and the body of every ok
  response is readable: with exactly one ok response the page shows that source's projects
  sorted by decreasing stars and no error; with none the error is
  "Failed to fetch projects" and the list shown stays as it was; with two the page shows
  the two lists appended and sorted by decreasing stars, every project of either list kept.
\<close>

lemma fetchProjects_on_responses:
  "fetchProjects st r (Response True (Data g)) (Response False hb)
     = st\<lparr>shown := sortByStars (case g of None \<Rightarrow> [] | Some gs \<Rightarrow> gs), loading := False, error := None\<rparr>
   \<and> fetchProjects st r (Response False gb) (Response True (Data h))
     = st\<lparr>shown := sortByStars (case h of None \<Rightarrow> [] | Some hs \<Rightarrow> hs), loading := False, error := None\<rparr>
   \<and> fetchProjects st r (Response False gb) (Response False hb)
     = st\<lparr>loading := False, error := Some ''Failed to fetch projects''\<rparr>
   \<and> fetchProjects st r (Response True (Data g)) (Response True (Data h))
     = st\<lparr>shown := sortByStars ((case g of None \<Rightarrow> [] | Some gs \<Rightarrow> gs) @ (case h of None \<Rightarrow> [] | Some hs \<Rightarrow> hs)),
           loading := False, error := None\<rparr>
   \<and> mset (sortByStars (gs @ hs)) = mset gs + mset hs
   \<and> sorted_wrt (\<lambda>a b. stars b \<le> stars a) (sortByStars ps)"
  by (simp add: fetchProjects_def combine_responses readProjects_def sortByStars_mset sortByStars_sorted
           split: option.splits)

text \<open>
  A fetch that rejects is not among these cases: \<open>Promise.all\<close> rejects with it and the
  handler's \<open>catch\<close> reports its message, whatever the other fetch gave.
\<close>

lemma fetchProjects_on_rejection:
  "fetchProjects st r (Rejected m) (Response ok b) = st\<lparr>loading := False, error := Some m\<rparr>
   \<and> fetchProjects st r (Response ok b) (Rejected m) = st\<lparr>loading := False, error := Some m\<rparr>"
  by (simp add: fetchProjects_def combine_def)

text \<open>
  Claim C9. With exactly one source failing, the final list is to be the other source's
  output, sorted by decreasing stars, and no error is to be raised. The handler does so
  for a response that is not ok, and the routes catch the failures of their own fetches
  so that the other results still show. It does not for a fetch that rejects: at a
  rejected GitHub fetch and a hub response that is ok and carries one project, the page
  ends with the error of the rejection and an empty list, which is not the hub's sorted
  output.
\<close>

theorem C9_rejected_fetch_hides_other_source:
  "fetchProjects \<lparr>shown = [], loading = False, error = None\<rparr> GithubFirst
     (Rejected ''Failed to fetch'')
     (Response True (Data (Some
        [\<lparr>project_id = ''hf_space_a_x'', name = ''a/x'', description = ''demo'',
          url = ''https://huggingface.co/spaces/a/x'', stars = 7, language = ''Gradio'',
          topics = [''space'', ''demo'', ''ai''], source = Some ''huggingface_spaces''\<rparr>])))
   = \<lparr>shown = [], loading = False, error = Some ''Failed to fetch''\<rparr>
   \<and> [] \<noteq> sortByStars
        [\<lparr>project_id = ''hf_space_a_x'', name = ''a/x'', description = ''demo'',
          url = ''https://huggingface.co/spaces/a/x'', stars = 7, language = ''Gradio'',
          topics = [''space'', ''demo'', ''ai''], source = Some ''huggingface_spaces''\<rparr>]"
  by (simp add: fetchProjects_def combine_def sortByStars_def)

end
